theory Spec2Isabelle
  imports Main
begin

section \<open>Storage handle, extension registry and construction factory of c10/core/StorageImpl.cpp\<close>

text \<open>
  The translation unit defines the four data-pointer accessors of \<open>StorageImpl\<close>, the
  process-wide table \<open>StorageImplCreate\<close> with its setter and getter, and the factory
  \<open>make_storage_impl\<close>. Exceptions raised by \<open>TORCH_CHECK\<close> are values of the type
  \<open>error\<close>; a function that can raise returns \<open>error + 'a\<close> with \<open>Inl\<close> for the exception.
  Members of a class carry the source's name followed by a prime (\<open>data_ptr_'\<close> is the
  member \<open>data_ptr_\<close>), since a name may not end in an underscore.
\<close>

subsection \<open>Errors\<close>

text \<open>
  Every failing \<open>TORCH_CHECK\<close> of the file raises \<open>c10::Error\<close>; the three checks are told
  apart by the names the specification gives them. \<open>AllocationFailure\<close> and
  \<open>MaterializationFailure\<close> are the failures of the two external capabilities, which pass
  through this code unchanged. \<open>NullPointerDereference\<close> stands for the call of
  \<open>allocate\<close> through a null \<open>Allocator*\<close>, which the source leaves undefined.
\<close>

datatype error =
    NullDataAccessError
  | DomainNotAllowedError
  | AlreadyRegisteredError
  | AllocationFailure
  | MaterializationFailure
  | NullPointerDereference

subsection \<open>Buffer handles, sizes, allocators\<close>

type_synonym address = nat

definition nullptr :: address where
  "nullptr = 0"

text \<open>
  Modelled from the spec: the class \<open>DataPtr\<close> is declared in c10/core/Allocator.h, not
  in this file. The specification calls it an ownership-bearing pointer to raw memory; the
  model keeps the address it holds. \<open>get\<close> and \<open>mutable_get\<close> both read that address, and
  the comparison with \<open>nullptr\<close> (line 104) tests it.
\<close>

record DataPtr =
  ptr_' :: address

definition DataPtr_get :: "DataPtr \<Rightarrow> address" where
  "DataPtr_get dp = ptr_' dp"

definition DataPtr_mutable_get :: "DataPtr \<Rightarrow> address" where
  "DataPtr_mutable_get dp = ptr_' dp"

definition DataPtr_ne_nullptr :: "DataPtr \<Rightarrow> bool" where
  "DataPtr_ne_nullptr dp = (ptr_' dp \<noteq> nullptr)"

text \<open>
  Modelled from the spec: \<open>SymInt\<close> is declared in another header. The declared byte
  size is either a concrete number or a symbolic quantity that is not yet resolved.
\<close>

datatype SymInt = ConcreteInt int | SymbolicInt nat

text \<open>
  Modelled from the spec: the allocator is the external capability
  \<open>allocate(byte_size) -> BufferHandle\<close>, which may fail. An \<open>Allocator*\<close> is
  \<open>None\<close> when it is the null pointer.
\<close>

type_synonym Allocator = "SymInt \<Rightarrow> error + DataPtr"

datatype use_byte_size_t = use_byte_size_t

subsection \<open>The storage handle\<close>

text \<open>
  Modelled from the spec: the class \<open>StorageImpl\<close> is declared in c10/core/StorageImpl.h,
  of which only the include line is here. The record holds the members the source file reads
  (\<open>data_ptr_\<close>, \<open>has_data_ptr_check_\<close>, \<open>throw_on_mutable_data_ptr_\<close>), the members the
  constructor arguments of \<open>make_storage_impl\<close> fill (byte size, allocator, resizability),
  and the copy-on-write-pending flag of the specification, which is what
  \<open>maybe_materialize_cow\<close> tests.
\<close>

record StorageImpl =
  data_ptr_' :: DataPtr
  size_bytes_' :: SymInt
  resizable_' :: bool
  allocator_' :: "Allocator option"
  has_data_ptr_check_' :: bool
  throw_on_mutable_data_ptr_' :: bool
  cow_pending_' :: bool

text \<open>
  Modelled from the spec: the specification speaks of one \<open>access_mode\<close> with three values,
  the class stores flags. The mode of a handle is read off the flags in the order in which
  the mutable accessors test them (lines 15 to 19 and 33 to 37): the gate
  \<open>has_data_ptr_check_\<close> first, then \<open>throw_on_mutable_data_ptr_\<close>, then the
  copy-on-write-pending flag.
\<close>

datatype access_mode = Normal | ReadOnlyStrict | CopyOnWritePending

definition access_mode :: "StorageImpl \<Rightarrow> access_mode" where
  "access_mode s =
     (if has_data_ptr_check_' s then
        (if throw_on_mutable_data_ptr_' s then ReadOnlyStrict
         else if cow_pending_' s then CopyOnWritePending
         else Normal)
      else Normal)"

text \<open>
  Modelled from the spec: the materialization routine is the external capability
  \<open>materialize(current_buffer, byte_size) -> BufferHandle\<close>; its failure passes through
  unchanged.
\<close>

type_synonym materializer = "DataPtr \<Rightarrow> SymInt \<Rightarrow> error + DataPtr"

text \<open>
  Modelled from the spec: \<open>maybe_materialize_cow\<close> is a member function declared in the
  class header. For a copy-on-write-pending handle it invokes the materialization
  capability, replaces the handle's buffer with the new one and resets the access mode to
  \<open>Normal\<close> (the pending flag is cleared and the gate is left set only for the throw flag);
  for any other handle it does nothing.
\<close>

definition maybe_materialize_cow :: "materializer \<Rightarrow> StorageImpl \<Rightarrow> error + StorageImpl" where
  "maybe_materialize_cow materialize s =
     (if cow_pending_' s then
        (case materialize (data_ptr_' s) (size_bytes_' s) of
           Inl e \<Rightarrow> Inl e
         | Inr new_data_ptr \<Rightarrow>
             Inr (s\<lparr>data_ptr_' := new_data_ptr,
                    cow_pending_' := False,
                    has_data_ptr_check_' := throw_on_mutable_data_ptr_' s\<rparr>))
      else Inr s)"

text \<open>Lines 42 to 50: \<open>TORCH_CHECK(false, ...)\<close> always raises.\<close>

definition throwNullDataPtrError :: "error + 'a" where
  "throwNullDataPtrError = Inl NullDataAccessError"

text \<open>
  The accessors take the handle and return the value together with the handle as the call
  leaves it. Lines 14 to 22: the guarded block runs first, then \<open>data_ptr_\<close> is returned.
\<close>

definition mutable_data_ptr :: "materializer \<Rightarrow> StorageImpl \<Rightarrow> error + (DataPtr \<times> StorageImpl)" where
  "mutable_data_ptr materialize s =
     (case (if has_data_ptr_check_' s then
              (if throw_on_mutable_data_ptr_' s then throwNullDataPtrError
               else maybe_materialize_cow materialize s)
            else Inr s) of
        Inl e \<Rightarrow> Inl e
      | Inr s' \<Rightarrow> Inr (data_ptr_' s', s'))"

text \<open>Lines 24 to 26.\<close>

definition data_ptr :: "StorageImpl \<Rightarrow> error + (DataPtr \<times> StorageImpl)" where
  "data_ptr s = Inr (data_ptr_' s, s)"

text \<open>Lines 28 to 30.\<close>

definition data :: "StorageImpl \<Rightarrow> error + (address \<times> StorageImpl)" where
  "data s = Inr (DataPtr_get (data_ptr_' s), s)"

text \<open>Lines 32 to 40.\<close>

definition mutable_data :: "materializer \<Rightarrow> StorageImpl \<Rightarrow> error + (address \<times> StorageImpl)" where
  "mutable_data materialize s =
     (case (if has_data_ptr_check_' s then
              (if throw_on_mutable_data_ptr_' s then throwNullDataPtrError
               else maybe_materialize_cow materialize s)
            else Inr s) of
        Inl e \<Rightarrow> Inl e
      | Inr s' \<Rightarrow> Inr (DataPtr_mutable_get (data_ptr_' s'), s'))"

text \<open>
  Modelled from the spec: the two constructors of \<open>StorageImpl\<close> are declared in the
  class header. With a pre-supplied buffer the handle takes ownership of it as it is;
  without one the handle first obtains a buffer of the requested size from the given
  allocator. A new handle is in the \<open>Normal\<close> mode.
\<close>

definition StorageImpl_with_data_ptr ::
  "use_byte_size_t \<Rightarrow> SymInt \<Rightarrow> DataPtr \<Rightarrow> Allocator option \<Rightarrow> bool \<Rightarrow> error + StorageImpl" where
  "StorageImpl_with_data_ptr use_byte_size size_bytes data_ptr_arg allocator resizable =
     Inr \<lparr>data_ptr_' = data_ptr_arg,
          size_bytes_' = size_bytes,
          resizable_' = resizable,
          allocator_' = allocator,
          has_data_ptr_check_' = False,
          throw_on_mutable_data_ptr_' = False,
          cow_pending_' = False\<rparr>"

definition StorageImpl_allocating ::
  "use_byte_size_t \<Rightarrow> SymInt \<Rightarrow> Allocator option \<Rightarrow> bool \<Rightarrow> error + StorageImpl" where
  "StorageImpl_allocating use_byte_size size_bytes allocator resizable =
     (case allocator of
        None \<Rightarrow> Inl NullPointerDereference
      | Some allocate \<Rightarrow>
          (case allocate size_bytes of
             Inl e \<Rightarrow> Inl e
           | Inr fresh \<Rightarrow>
               StorageImpl_with_data_ptr use_byte_size size_bytes fresh allocator resizable))"

subsection \<open>The extension registry\<close>

text \<open>
  Modelled from the spec: the enum \<open>DeviceType\<close> is declared in another header. It is a
  small closed set of device domains; the source names one of them, \<open>PrivateUse1\<close>. The
  other enumerators are told apart by their ordinal. Every enumerator is below
  \<open>COMPILE_TIME_MAX_DEVICE_TYPES\<close>, so indexing the table with one is in range.
\<close>

datatype DeviceType = PrivateUse1 | OtherDeviceType nat

record Device =
  type_' :: DeviceType
  index_' :: int

text \<open>
  A \<open>StorageImplCreateHelper\<close> is a pointer to a function with the five parameters of the
  call at lines 95 to 100; \<open>None\<close> is the null function pointer.
\<close>

type_synonym StorageImplCreateHelper =
  "use_byte_size_t \<Rightarrow> SymInt \<Rightarrow> DataPtr \<Rightarrow> Allocator option \<Rightarrow> bool \<Rightarrow> error + StorageImpl"

text \<open>
  Lines 7 and 8: the global array, indexed by the device type. It has static storage, so
  every slot is the null pointer when the process starts.
\<close>

type_synonym StorageImplCreate_table = "DeviceType \<Rightarrow> StorageImplCreateHelper option"

definition StorageImplCreate_startup :: StorageImplCreate_table where
  "StorageImplCreate_startup = (\<lambda>t. None)"

text \<open>Lines 11 and 12.\<close>

definition DeviceTypeAllowList :: "DeviceType set" where
  "DeviceTypeAllowList = {PrivateUse1}"

text \<open>
  Lines 52 to 70. The global table is passed in and, when both checks pass, returned
  with the slot written; a failing check raises before the write.
\<close>

definition SetStorageImplCreate ::
  "StorageImplCreate_table \<Rightarrow> DeviceType \<Rightarrow> StorageImplCreateHelper option
     \<Rightarrow> error + StorageImplCreate_table" where
  "SetStorageImplCreate StorageImplCreate t fptr =
     (if t \<notin> DeviceTypeAllowList then Inl DomainNotAllowedError
      else if StorageImplCreate t \<noteq> None then Inl AlreadyRegisteredError
      else Inr (StorageImplCreate(t := fptr)))"

text \<open>Lines 72 to 75.\<close>

definition GetStorageImplCreate ::
  "StorageImplCreate_table \<Rightarrow> DeviceType \<Rightarrow> StorageImplCreateHelper option" where
  "GetStorageImplCreate StorageImplCreate t = StorageImplCreate t"

text \<open>
  Any sequence of registration calls, run from a given table: a call that raises leaves
  the table as it was, a call that returns leaves the table it wrote.
\<close>

fun run_SetStorageImplCreate ::
  "StorageImplCreate_table \<Rightarrow> (DeviceType \<times> StorageImplCreateHelper option) list
     \<Rightarrow> StorageImplCreate_table" where
  "run_SetStorageImplCreate tab [] = tab"
| "run_SetStorageImplCreate tab ((t, fptr) # calls) =
     (case SetStorageImplCreate tab t fptr of
        Inl e \<Rightarrow> run_SetStorageImplCreate tab calls
      | Inr tab' \<Rightarrow> run_SetStorageImplCreate tab' calls)"

subsection \<open>The construction factory\<close>

text \<open>
  Lines 77 to 114. The parameter \<open>data_ptr\<close> of the source is \<open>data_ptr_arg\<close> here, to keep
  it apart from the accessor of that name.
\<close>

definition make_storage_impl ::
  "StorageImplCreate_table \<Rightarrow> use_byte_size_t \<Rightarrow> SymInt \<Rightarrow> DataPtr \<Rightarrow> Allocator option
     \<Rightarrow> bool \<Rightarrow> Device option \<Rightarrow> error + StorageImpl" where
  "make_storage_impl StorageImplCreate use_byte_size size_bytes data_ptr_arg allocator resizable device_opt =
     (let fptr = (case device_opt of
                    Some device \<Rightarrow> GetStorageImplCreate StorageImplCreate (type_' device)
                  | None \<Rightarrow> None)
      in case fptr of
           Some create \<Rightarrow> create use_byte_size size_bytes data_ptr_arg allocator resizable
         | None \<Rightarrow>
             if DataPtr_ne_nullptr data_ptr_arg then
               StorageImpl_with_data_ptr use_byte_size size_bytes data_ptr_arg allocator resizable
             else
               StorageImpl_allocating use_byte_size size_bytes allocator resizable)"

subsection \<open>Sequences of accessor calls\<close>

text \<open>
  A caller's view of a handle over several calls: each call either returns an address
  (for the two accessors that return the \<open>DataPtr\<close>, the address it holds) or raises. A
  call that raises leaves the handle as it found it: \<open>throwNullDataPtrError\<close> runs before
  any member is written, and a failed materialization has not replaced the buffer.
\<close>

datatype accessor = Call_data_ptr | Call_data | Call_mutable_data_ptr | Call_mutable_data

datatype outcome = Returned address | Raised error

definition call_accessor :: "materializer \<Rightarrow> accessor \<Rightarrow> StorageImpl \<Rightarrow> outcome \<times> StorageImpl" where
  "call_accessor materialize a s =
     (case a of
        Call_data_ptr \<Rightarrow>
          (case data_ptr s of
             Inl e \<Rightarrow> (Raised e, s)
           | Inr (dp, s') \<Rightarrow> (Returned (DataPtr_get dp), s'))
      | Call_data \<Rightarrow>
          (case data s of
             Inl e \<Rightarrow> (Raised e, s)
           | Inr (p, s') \<Rightarrow> (Returned p, s'))
      | Call_mutable_data_ptr \<Rightarrow>
          (case mutable_data_ptr materialize s of
             Inl e \<Rightarrow> (Raised e, s)
           | Inr (dp, s') \<Rightarrow> (Returned (DataPtr_mutable_get dp), s'))
      | Call_mutable_data \<Rightarrow>
          (case mutable_data materialize s of
             Inl e \<Rightarrow> (Raised e, s)
           | Inr (p, s') \<Rightarrow> (Returned p, s')))"

fun run_accessors :: "materializer \<Rightarrow> accessor list \<Rightarrow> StorageImpl \<Rightarrow> outcome list \<times> StorageImpl" where
  "run_accessors materialize [] s = ([], s)"
| "run_accessors materialize (a # as) s =
     (case call_accessor materialize a s of
        (r, s') \<Rightarrow> (case run_accessors materialize as s' of (rs, s'') \<Rightarrow> (r # rs, s'')))"

definition is_mutable_accessor :: "accessor \<Rightarrow> bool" where
  "is_mutable_accessor a = (a = Call_mutable_data_ptr \<or> a = Call_mutable_data)"

subsection \<open>Concrete handles, capabilities and builders\<close>

text \<open>
  A handle on a 64-byte buffer at address 4096 with the three flags as given, a
  materialization routine and an allocator that hand out buffers at other addresses, and
  two builders: one returns a fixed handle that no default construction produces, the
  other adopts whatever buffer it is given.
\<close>

definition handle_with_flags :: "bool \<Rightarrow> bool \<Rightarrow> bool \<Rightarrow> StorageImpl" where
  "handle_with_flags check throw cow =
     \<lparr>data_ptr_' = \<lparr>ptr_' = 4096\<rparr>,
      size_bytes_' = ConcreteInt 64,
      resizable_' = False,
      allocator_' = None,
      has_data_ptr_check_' = check,
      throw_on_mutable_data_ptr_' = throw,
      cow_pending_' = cow\<rparr>"

definition copying_materializer :: materializer where
  "copying_materializer current size_bytes = Inr \<lparr>ptr_' = ptr_' current + 4096\<rparr>"

definition failing_materializer :: materializer where
  "failing_materializer current size_bytes = Inl MaterializationFailure"


definition bump_allocator :: Allocator where
  "bump_allocator size_bytes = Inr \<lparr>ptr_' = 16384\<rparr>"

definition sentinel_handle :: StorageImpl where
  "sentinel_handle =
     \<lparr>data_ptr_' = \<lparr>ptr_' = 12288\<rparr>,
      size_bytes_' = ConcreteInt 0,
      resizable_' = False,
      allocator_' = None,
      has_data_ptr_check_' = False,
      throw_on_mutable_data_ptr_' = False,
      cow_pending_' = False\<rparr>"

definition sentinel_create :: StorageImplCreateHelper where
  "sentinel_create use_byte_size size_bytes data_ptr_arg allocator resizable = Inr sentinel_handle"

definition adopting_create :: StorageImplCreateHelper where
  "adopting_create use_byte_size size_bytes data_ptr_arg allocator resizable =
     StorageImpl_with_data_ptr use_byte_size size_bytes data_ptr_arg allocator resizable"

definition cpu_device :: Device where
  "cpu_device = \<lparr>type_' = OtherDeviceType 0, index_' = 0\<rparr>"

definition private_device :: Device where
  "private_device = \<lparr>type_' = PrivateUse1, index_' = 0\<rparr>"

text \<open>
  Two tables that registration calls produce from the startup table: one holds the
  sentinel builder in the slot of \<open>PrivateUse1\<close>, the other the adopting builder.
\<close>

definition private_table :: StorageImplCreate_table where
  "private_table =
     run_SetStorageImplCreate StorageImplCreate_startup [(PrivateUse1, Some sentinel_create)]"

definition adopting_table :: StorageImplCreate_table where
  "adopting_table =
     run_SetStorageImplCreate StorageImplCreate_startup [(PrivateUse1, Some adopting_create)]"

section \<open>Properties of the accessors\<close>


lemma ReadOnlyStrict_flags:
  "access_mode s = ReadOnlyStrict \<longleftrightarrow> has_data_ptr_check_' s \<and> throw_on_mutable_data_ptr_' s"
  by (simp add: access_mode_def)

lemma mutable_accessors_raise:
  assumes "has_data_ptr_check_' s" and "throw_on_mutable_data_ptr_' s"
  shows "mutable_data_ptr materialize s = Inl NullDataAccessError"
    and "mutable_data materialize s = Inl NullDataAccessError"
  using assms by (simp_all add: mutable_data_ptr_def mutable_data_def throwNullDataPtrError_def)

lemma handle_with_flags_modes:
  "access_mode (handle_with_flags False False False) = Normal"
  "access_mode (handle_with_flags True True cow) = ReadOnlyStrict"
  "access_mode (handle_with_flags True False True) = CopyOnWritePending"
  by (simp_all add: access_mode_def handle_with_flags_def)




text \<open>
  C2. In the read-only-strict state (the throw-on-mutable flag is set, under the gate
  \<open>has_data_ptr_check_\<close> that guards its test) both read accessors return, and both
  mutable accessors raise \<open>NullDataAccessError\<close>. The order of the calls does not matter:
  in any sequence of accessor calls every read returns the buffer's address, every mutable
  access raises, and the handle is the same at the end.
\<close>

lemma call_accessor_ReadOnlyStrict:
  assumes "access_mode s = ReadOnlyStrict"
  shows "call_accessor materialize a s =
           (if is_mutable_accessor a then Raised NullDataAccessError
            else Returned (DataPtr_get (data_ptr_' s)), s)"
  using assms
  by (cases a)
     (simp_all add: call_accessor_def is_mutable_accessor_def ReadOnlyStrict_flags
        mutable_accessors_raise data_ptr_def data_def)

theorem read_only_strict_reads_succeed_writes_raise:
  assumes "access_mode s = ReadOnlyStrict"
  shows "data s = Inr (DataPtr_get (data_ptr_' s), s)
       \<and> data_ptr s = Inr (data_ptr_' s, s)
       \<and> mutable_data_ptr materialize s = Inl NullDataAccessError
       \<and> mutable_data materialize s = Inl NullDataAccessError
       \<and> run_accessors materialize calls s =
           (map (\<lambda>a. if is_mutable_accessor a then Raised NullDataAccessError
                     else Returned (DataPtr_get (data_ptr_' s))) calls, s)"
proof -
  have "run_accessors materialize calls s =
           (map (\<lambda>a. if is_mutable_accessor a then Raised NullDataAccessError
                     else Returned (DataPtr_get (data_ptr_' s))) calls, s)"
    by (induction calls) (simp_all add: call_accessor_ReadOnlyStrict [OF assms])
  then show ?thesis
    using assms by (simp add: ReadOnlyStrict_flags mutable_accessors_raise data_def data_ptr_def)
qed

theorem read_only_strict_reads_succeed_writes_raise_witness:
  "access_mode (handle_with_flags True True False) = ReadOnlyStrict
   \<and> data (handle_with_flags True True False) = Inr (4096, handle_with_flags True True False)
   \<and> mutable_data copying_materializer (handle_with_flags True True False)
       = Inl NullDataAccessError
   \<and> run_accessors copying_materializer
        [Call_mutable_data, Call_data, Call_mutable_data_ptr, Call_data_ptr]
        (handle_with_flags True True False)
      = ([Raised NullDataAccessError, Returned 4096, Raised NullDataAccessError, Returned 4096],
         handle_with_flags True True False)"
proof -
  have m: "access_mode (handle_with_flags True True False) = ReadOnlyStrict"
    by (rule handle_with_flags_modes)
  show ?thesis
    using read_only_strict_reads_succeed_writes_raise [OF m, of copying_materializer
        "[Call_mutable_data, Call_data, Call_mutable_data_ptr, Call_data_ptr]"] m
    by (simp add: is_mutable_accessor_def DataPtr_get_def handle_with_flags_def)
qed

text \<open>
  C3. In the \<open>Normal\<close> state each mutable accessor returns what the read accessor of the
  same kind returns (the same address, the same \<open>DataPtr\<close>) and leaves the handle as it
  is: the buffer is not replaced and no flag changes.
\<close>

theorem normal_mutable_equals_read:
  assumes "access_mode s = Normal"
  shows "mutable_data materialize s = Inr (DataPtr_get (data_ptr_' s), s)
       \<and> data s = Inr (DataPtr_get (data_ptr_' s), s)
       \<and> mutable_data_ptr materialize s = Inr (data_ptr_' s, s)
       \<and> data_ptr s = Inr (data_ptr_' s, s)"
  using assms
  by (auto simp: access_mode_def mutable_data_def mutable_data_ptr_def data_def data_ptr_def
        maybe_materialize_cow_def DataPtr_get_def DataPtr_mutable_get_def split: if_splits)

theorem normal_mutable_equals_read_witness:
  "access_mode (handle_with_flags False False False) = Normal
   \<and> mutable_data copying_materializer (handle_with_flags False False False)
       = Inr (4096, handle_with_flags False False False)
   \<and> data (handle_with_flags False False False) = Inr (4096, handle_with_flags False False False)"
proof -
  have m: "access_mode (handle_with_flags False False False) = Normal"
    by (rule handle_with_flags_modes)
  show ?thesis
    using normal_mutable_equals_read [OF m, of copying_materializer] m
    by (simp add: DataPtr_get_def handle_with_flags_def)
qed

text \<open>
  C8. In every access mode the two read accessors return: \<open>data_ptr\<close> gives the handle's
  current buffer, \<open>data\<close> its address, and the handle they leave is the handle they
  found. Among the four accessors only the mutable ones can change the access mode or
  replace the buffer: a call after which either differs is a call of a mutable accessor.
\<close>

theorem read_accessors_frame:
  "data s = Inr (DataPtr_get (data_ptr_' s), s)
   \<and> data_ptr s = Inr (data_ptr_' s, s)
   \<and> (\<not> is_mutable_accessor a \<longrightarrow>
        call_accessor materialize a s = (Returned (DataPtr_get (data_ptr_' s)), s))
   \<and> (access_mode (snd (call_accessor materialize a s)) \<noteq> access_mode s
        \<or> data_ptr_' (snd (call_accessor materialize a s)) \<noteq> data_ptr_' s
      \<longrightarrow> is_mutable_accessor a)"
  by (cases a) (simp_all add: call_accessor_def is_mutable_accessor_def data_def data_ptr_def)

theorem read_accessors_frame_witness:
  "data (handle_with_flags True False True) = Inr (4096, handle_with_flags True False True)
   \<and> data_ptr (handle_with_flags True True True)
       = Inr (\<lparr>ptr_' = 4096\<rparr>, handle_with_flags True True True)
   \<and> \<not> is_mutable_accessor Call_data
   \<and> call_accessor copying_materializer Call_data (handle_with_flags True False True)
       = (Returned 4096, handle_with_flags True False True)
   \<and> access_mode (snd (call_accessor copying_materializer Call_mutable_data
                         (handle_with_flags True False True)))
       \<noteq> access_mode (handle_with_flags True False True)
   \<and> is_mutable_accessor Call_mutable_data"
proof -
  have r: "\<not> is_mutable_accessor Call_data"
    by (simp add: is_mutable_accessor_def)
  have c: "access_mode (snd (call_accessor copying_materializer Call_mutable_data
                               (handle_with_flags True False True)))
             \<noteq> access_mode (handle_with_flags True False True)"
    by (simp add: call_accessor_def mutable_data_def maybe_materialize_cow_def
        copying_materializer_def handle_with_flags_def access_mode_def)
  show ?thesis
    using r c
      read_accessors_frame [of "handle_with_flags True False True" Call_data copying_materializer]
      read_accessors_frame [of "handle_with_flags True True True" Call_data copying_materializer]
      read_accessors_frame [of "handle_with_flags True False True" Call_mutable_data
        copying_materializer]
    by (simp add: DataPtr_get_def handle_with_flags_def)
qed

text \<open>
  C9. On a handle whose throw-on-mutable flag is set (under the gate
  \<open>has_data_ptr_check_\<close>, inside which the flag is tested) both mutable accessors raise
  \<open>NullDataAccessError\<close> whatever the copy-on-write-pending flag says and whatever the
  materialization routine would do: the flag is tested before \<open>maybe_materialize_cow\<close>
  is reached, so the routine does not run and the handle keeps its buffer and its flags.
\<close>

theorem throw_flag_checked_before_cow:
  assumes "has_data_ptr_check_' s" and "throw_on_mutable_data_ptr_' s"
  shows "mutable_data_ptr materialize (s\<lparr>cow_pending_' := pending\<rparr>) = Inl NullDataAccessError
       \<and> mutable_data materialize (s\<lparr>cow_pending_' := pending\<rparr>) = Inl NullDataAccessError
       \<and> call_accessor materialize Call_mutable_data_ptr (s\<lparr>cow_pending_' := pending\<rparr>)
           = (Raised NullDataAccessError, s\<lparr>cow_pending_' := pending\<rparr>)
       \<and> call_accessor materialize Call_mutable_data (s\<lparr>cow_pending_' := pending\<rparr>)
           = (Raised NullDataAccessError, s\<lparr>cow_pending_' := pending\<rparr>)"
  using assms
  by (simp add: mutable_data_ptr_def mutable_data_def throwNullDataPtrError_def call_accessor_def)

theorem throw_flag_checked_before_cow_witness:
  "has_data_ptr_check_' (handle_with_flags True True True)
   \<and> throw_on_mutable_data_ptr_' (handle_with_flags True True True)
   \<and> cow_pending_' (handle_with_flags True True True)
   \<and> maybe_materialize_cow copying_materializer (handle_with_flags True True True)
       = Inr ((handle_with_flags True True False)\<lparr>data_ptr_' := \<lparr>ptr_' = 8192\<rparr>\<rparr>)
   \<and> mutable_data_ptr copying_materializer (handle_with_flags True True True)
       = Inl NullDataAccessError
   \<and> mutable_data copying_materializer (handle_with_flags True True True)
       = Inl NullDataAccessError
   \<and> call_accessor failing_materializer Call_mutable_data (handle_with_flags True True True)
       = (Raised NullDataAccessError, handle_with_flags True True True)"
proof -
  have g: "has_data_ptr_check_' (handle_with_flags True True True)"
    and t: "throw_on_mutable_data_ptr_' (handle_with_flags True True True)"
    and p: "cow_pending_' (handle_with_flags True True True)"
    by (simp_all add: handle_with_flags_def)
  have same: "(handle_with_flags True True True)\<lparr>cow_pending_' := True\<rparr>
                = handle_with_flags True True True"
    by (simp add: handle_with_flags_def)
  have would: "maybe_materialize_cow copying_materializer (handle_with_flags True True True)
                 = Inr ((handle_with_flags True True False)\<lparr>data_ptr_' := \<lparr>ptr_' = 8192\<rparr>\<rparr>)"
    by (simp add: maybe_materialize_cow_def copying_materializer_def handle_with_flags_def)
  show ?thesis
    using g t p would
      throw_flag_checked_before_cow [OF g t, of copying_materializer True]
      throw_flag_checked_before_cow [OF g t, of failing_materializer True]
    by (simp add: same)
qed

section \<open>Properties of the registry\<close>

lemma private_table_lookup:
  "GetStorageImplCreate private_table PrivateUse1 = Some sentinel_create"
  "GetStorageImplCreate private_table (OtherDeviceType n) = None"
  by (simp_all add: GetStorageImplCreate_def private_table_def StorageImplCreate_startup_def
      SetStorageImplCreate_def DeviceTypeAllowList_def)

lemma adopting_table_lookup:
  "GetStorageImplCreate adopting_table PrivateUse1 = Some adopting_create"
  by (simp add: GetStorageImplCreate_def adopting_table_def StorageImplCreate_startup_def
      SetStorageImplCreate_def DeviceTypeAllowList_def)

text \<open>
  C6. When the slot of \<open>PrivateUse1\<close>, the one allow-listed domain, is empty, registering a
  non-empty builder for it succeeds and the lookup returns that builder. A second
  registration for the domain, with any function pointer, raises
  \<open>AlreadyRegisteredError\<close>, and after the two calls the lookup still returns the first
  builder.
\<close>

theorem register_once:
  assumes "GetStorageImplCreate tab PrivateUse1 = None"
  shows "SetStorageImplCreate tab PrivateUse1 (Some create) = Inr (tab(PrivateUse1 := Some create))
       \<and> GetStorageImplCreate (tab(PrivateUse1 := Some create)) PrivateUse1 = Some create
       \<and> SetStorageImplCreate (tab(PrivateUse1 := Some create)) PrivateUse1 second
           = Inl AlreadyRegisteredError
       \<and> GetStorageImplCreate
           (run_SetStorageImplCreate tab [(PrivateUse1, Some create), (PrivateUse1, second)])
           PrivateUse1 = Some create"
  using assms
  by (simp add: SetStorageImplCreate_def GetStorageImplCreate_def DeviceTypeAllowList_def)

theorem register_once_witness:
  "GetStorageImplCreate StorageImplCreate_startup PrivateUse1 = None
   \<and> SetStorageImplCreate StorageImplCreate_startup PrivateUse1 (Some sentinel_create)
       = Inr (StorageImplCreate_startup(PrivateUse1 := Some sentinel_create))
   \<and> SetStorageImplCreate (StorageImplCreate_startup(PrivateUse1 := Some sentinel_create))
        PrivateUse1 (Some adopting_create) = Inl AlreadyRegisteredError
   \<and> GetStorageImplCreate
        (run_SetStorageImplCreate StorageImplCreate_startup
           [(PrivateUse1, Some sentinel_create), (PrivateUse1, Some adopting_create)])
        PrivateUse1 = Some sentinel_create"
proof -
  have e: "GetStorageImplCreate StorageImplCreate_startup PrivateUse1 = None"
    by (simp add: GetStorageImplCreate_def StorageImplCreate_startup_def)
  show ?thesis
    using e register_once [OF e, of sentinel_create "Some adopting_create"]
    by simp
qed

text \<open>
  C7. For a domain other than \<open>PrivateUse1\<close> every registration raises
  \<open>DomainNotAllowedError\<close>, whatever the table holds and whatever is registered; the
  call leaves the table as it was; and after any sequence of registration calls from the
  startup table the lookup for that domain returns the null pointer.
\<close>

lemma SetStorageImplCreate_other_slot:
  assumes "t \<noteq> PrivateUse1" and "SetStorageImplCreate tab t' fptr = Inr tab'"
  shows "tab' t = tab t"
  using assms
  by (auto simp: SetStorageImplCreate_def DeviceTypeAllowList_def split: if_splits)

lemma run_SetStorageImplCreate_other_slot:
  assumes "t \<noteq> PrivateUse1"
  shows "run_SetStorageImplCreate tab calls t = tab t"
proof (induction calls arbitrary: tab)
  case Nil
  show ?case by simp
next
  case (Cons c calls)
  obtain t' fptr where c: "c = (t', fptr)" by (cases c)
  show ?case
  proof (cases "SetStorageImplCreate tab t' fptr")
    case (Inl e)
    with c Cons.IH show ?thesis by simp
  next
    case (Inr tab')
    with c Cons.IH [of tab'] SetStorageImplCreate_other_slot [OF assms Inr]
    show ?thesis by simp
  qed
qed

theorem register_outside_allow_list:
  assumes "t \<noteq> PrivateUse1"
  shows "SetStorageImplCreate tab t fptr = Inl DomainNotAllowedError
       \<and> run_SetStorageImplCreate tab ((t, fptr) # calls) = run_SetStorageImplCreate tab calls
       \<and> GetStorageImplCreate (run_SetStorageImplCreate StorageImplCreate_startup calls) t = None"
proof -
  have "SetStorageImplCreate tab t fptr = Inl DomainNotAllowedError"
    using assms by (simp add: SetStorageImplCreate_def DeviceTypeAllowList_def)
  moreover
  have "GetStorageImplCreate (run_SetStorageImplCreate StorageImplCreate_startup calls) t = None"
    using run_SetStorageImplCreate_other_slot [OF assms, of StorageImplCreate_startup calls]
    by (simp add: GetStorageImplCreate_def StorageImplCreate_startup_def)
  ultimately show ?thesis by simp
qed

theorem register_outside_allow_list_witness:
  "OtherDeviceType 0 \<noteq> PrivateUse1
   \<and> SetStorageImplCreate private_table (OtherDeviceType 0) (Some adopting_create)
       = Inl DomainNotAllowedError
   \<and> GetStorageImplCreate
        (run_SetStorageImplCreate StorageImplCreate_startup
           [(OtherDeviceType 0, Some adopting_create), (PrivateUse1, Some sentinel_create),
            (OtherDeviceType 0, Some sentinel_create)])
        (OtherDeviceType 0) = None"
proof -
  have n: "OtherDeviceType 0 \<noteq> PrivateUse1"
    by simp
  show ?thesis
    using n
      register_outside_allow_list [OF n, of private_table "Some adopting_create"
        "[(OtherDeviceType 0, Some adopting_create), (PrivateUse1, Some sentinel_create),
          (OtherDeviceType 0, Some sentinel_create)]"]
    by simp
qed

section \<open>Properties of the factory\<close>

lemma make_storage_impl_not_delegated:
  assumes "(case device_opt of None \<Rightarrow> None
            | Some device \<Rightarrow> GetStorageImplCreate tab (type_' device)) = None"
  shows "make_storage_impl tab u sz dp al rs device_opt =
           (if DataPtr_ne_nullptr dp then StorageImpl_with_data_ptr u sz dp al rs
            else StorageImpl_allocating u sz al rs)"
  using assms by (simp add: make_storage_impl_def)

lemma buffer_at_4096_not_null:
  "DataPtr_ne_nullptr \<lparr>ptr_' = 4096\<rparr>"
  by (simp add: DataPtr_ne_nullptr_def nullptr_def)

lemma buffer_at_nullptr_is_null:
  "\<not> DataPtr_ne_nullptr \<lparr>ptr_' = nullptr\<rparr>"
  by (simp add: DataPtr_ne_nullptr_def)

text \<open>
  C4. Without a target device the factory's result is the default construction (the
  constructor that takes the buffer when the buffer is not null, the allocating
  constructor otherwise) for every content of the registry, so the registry has no part
  in it. With a target device whose type has a registered builder the result is exactly
  what the builder returns for the factory's five arguments. With a target device whose
  type has no builder the result is again the default construction.
\<close>

theorem make_storage_impl_dispatch:
  "make_storage_impl tab u sz dp al rs None =
     (if DataPtr_ne_nullptr dp then StorageImpl_with_data_ptr u sz dp al rs
      else StorageImpl_allocating u sz al rs)
   \<and> (GetStorageImplCreate tab (type_' device) = Some create \<longrightarrow>
        make_storage_impl tab u sz dp al rs (Some device) = create u sz dp al rs)
   \<and> (GetStorageImplCreate tab (type_' device) = None \<longrightarrow>
        make_storage_impl tab u sz dp al rs (Some device) =
          (if DataPtr_ne_nullptr dp then StorageImpl_with_data_ptr u sz dp al rs
           else StorageImpl_allocating u sz al rs))"
  by (simp add: make_storage_impl_def)

theorem make_storage_impl_dispatch_witness:
  "GetStorageImplCreate private_table (type_' private_device) = Some sentinel_create
   \<and> GetStorageImplCreate private_table (type_' cpu_device) = None
   \<and> make_storage_impl private_table use_byte_size_t (ConcreteInt 64) \<lparr>ptr_' = 4096\<rparr> None False
        None
       = StorageImpl_with_data_ptr use_byte_size_t (ConcreteInt 64) \<lparr>ptr_' = 4096\<rparr> None False
   \<and> make_storage_impl private_table use_byte_size_t (ConcreteInt 64) \<lparr>ptr_' = 4096\<rparr> None False
        (Some private_device)
       = Inr sentinel_handle
   \<and> make_storage_impl private_table use_byte_size_t (ConcreteInt 64) \<lparr>ptr_' = 4096\<rparr> None False
        (Some cpu_device)
       = StorageImpl_with_data_ptr use_byte_size_t (ConcreteInt 64) \<lparr>ptr_' = 4096\<rparr> None False
   \<and> StorageImpl_with_data_ptr use_byte_size_t (ConcreteInt 64) \<lparr>ptr_' = 4096\<rparr> None False
       \<noteq> Inr sentinel_handle"
proof -
  have a: "GetStorageImplCreate private_table (type_' private_device) = Some sentinel_create"
    by (simp add: private_table_lookup private_device_def)
  have b: "GetStorageImplCreate private_table (type_' cpu_device) = None"
    by (simp add: private_table_lookup cpu_device_def)
  have d: "StorageImpl_with_data_ptr use_byte_size_t (ConcreteInt 64) \<lparr>ptr_' = 4096\<rparr> None False
             \<noteq> Inr sentinel_handle"
    by (simp add: StorageImpl_with_data_ptr_def sentinel_handle_def)
  show ?thesis
    using a b d buffer_at_4096_not_null
      make_storage_impl_dispatch [of private_table use_byte_size_t "ConcreteInt 64"
        "\<lparr>ptr_' = 4096\<rparr>" None False private_device sentinel_create]
      make_storage_impl_dispatch [of private_table use_byte_size_t "ConcreteInt 64"
        "\<lparr>ptr_' = 4096\<rparr>" None False cpu_device sentinel_create]
    by (simp add: sentinel_create_def)
qed

text \<open>
  C5, as stated, fails where the call is delegated: with the sentinel builder registered
  for \<open>PrivateUse1\<close>, a call for a \<open>PrivateUse1\<close> device with the buffer at address 4096
  returns the builder's handle, whose buffer is at address 12288.
\<close>

theorem delegated_call_ignores_supplied_buffer:
  "DataPtr_ne_nullptr \<lparr>ptr_' = 4096\<rparr>
   \<and> make_storage_impl private_table use_byte_size_t (ConcreteInt 64) \<lparr>ptr_' = 4096\<rparr> None False
        (Some private_device) = Inr sentinel_handle
   \<and> DataPtr_get (data_ptr_' sentinel_handle) \<noteq> DataPtr_get \<lparr>ptr_' = 4096\<rparr>"
  by (simp add: make_storage_impl_def private_table_lookup private_device_def sentinel_create_def
      sentinel_handle_def DataPtr_get_def buffer_at_4096_not_null)

text \<open>
  C5, amended. For every call of the factory with a pre-supplied buffer (one that is not
  null) that is not delegated to a registered builder (no target device, or a device
  whose type has no builder), the factory returns a handle that owns exactly that buffer,
  at the same address. This holds for every allocator argument, the null pointer and a
  failing allocator included: no buffer is obtained from the allocator.
\<close>

theorem supplied_buffer_is_adopted:
  assumes "DataPtr_ne_nullptr dp"
    and "(case device_opt of None \<Rightarrow> None
          | Some device \<Rightarrow> GetStorageImplCreate tab (type_' device)) = None"
  shows "\<exists>h. make_storage_impl tab u sz dp al rs device_opt = Inr h
           \<and> data_ptr_' h = dp
           \<and> DataPtr_get (data_ptr_' h) = DataPtr_get dp"
  using assms
  by (simp add: make_storage_impl_not_delegated StorageImpl_with_data_ptr_def)

theorem supplied_buffer_is_adopted_witness:
  "DataPtr_ne_nullptr \<lparr>ptr_' = 4096\<rparr>
   \<and> (case Some cpu_device of None \<Rightarrow> None
       | Some device \<Rightarrow> GetStorageImplCreate private_table (type_' device)) = None
   \<and> (\<exists>h. make_storage_impl private_table use_byte_size_t (ConcreteInt 64) \<lparr>ptr_' = 4096\<rparr>
              (Some bump_allocator) True (Some cpu_device) = Inr h
          \<and> data_ptr_' h = \<lparr>ptr_' = 4096\<rparr>
          \<and> DataPtr_get (data_ptr_' h) = 4096)"
proof -
  have n: "(case Some cpu_device of None \<Rightarrow> None
            | Some device \<Rightarrow> GetStorageImplCreate private_table (type_' device)) = None"
    by (simp add: private_table_lookup cpu_device_def)
  show ?thesis
    using n buffer_at_4096_not_null
      supplied_buffer_is_adopted [OF buffer_at_4096_not_null n, of use_byte_size_t
        "ConcreteInt 64" "Some bump_allocator" True]
    by (simp add: DataPtr_get_def)
qed

text \<open>
  C10, as stated, fails where the call is delegated: with the adopting builder registered
  for \<open>PrivateUse1\<close>, a call for a \<open>PrivateUse1\<close> device with a null buffer hands the null
  buffer to the builder, and the handle returned is the one that adopts it, not the one
  the allocating constructor builds.
\<close>

theorem delegated_call_keeps_null_buffer:
  "\<not> DataPtr_ne_nullptr \<lparr>ptr_' = nullptr\<rparr>
   \<and> make_storage_impl adopting_table use_byte_size_t (ConcreteInt 64) \<lparr>ptr_' = nullptr\<rparr>
        (Some bump_allocator) False (Some private_device)
       = StorageImpl_with_data_ptr use_byte_size_t (ConcreteInt 64) \<lparr>ptr_' = nullptr\<rparr>
           (Some bump_allocator) False
   \<and> make_storage_impl adopting_table use_byte_size_t (ConcreteInt 64) \<lparr>ptr_' = nullptr\<rparr>
        (Some bump_allocator) False (Some private_device)
       \<noteq> StorageImpl_allocating use_byte_size_t (ConcreteInt 64) (Some bump_allocator) False"
  by (simp add: make_storage_impl_def adopting_table_lookup adopting_create_def
      private_device_def StorageImpl_allocating_def StorageImpl_with_data_ptr_def
      bump_allocator_def DataPtr_ne_nullptr_def nullptr_def)

text \<open>
  C10, amended. For every call of the factory whose buffer argument is null and that is
  not delegated to a registered builder (no target device, or a device whose type has no
  builder), the factory's result is that of the allocating constructor, which is given no
  buffer; when the allocator delivers a buffer for the requested size, the handle owns
  that buffer and not the null one.
\<close>

theorem null_buffer_allocates:
  assumes "\<not> DataPtr_ne_nullptr dp"
    and "(case device_opt of None \<Rightarrow> None
          | Some device \<Rightarrow> GetStorageImplCreate tab (type_' device)) = None"
  shows "make_storage_impl tab u sz dp al rs device_opt = StorageImpl_allocating u sz al rs
       \<and> (al = Some allocate \<and> allocate sz = Inr fresh \<longrightarrow>
            (\<exists>h. make_storage_impl tab u sz dp al rs device_opt = Inr h
                \<and> data_ptr_' h = fresh))"
  using assms
  by (simp add: make_storage_impl_not_delegated StorageImpl_allocating_def
      StorageImpl_with_data_ptr_def)

theorem null_buffer_allocates_witness:
  "\<not> DataPtr_ne_nullptr \<lparr>ptr_' = nullptr\<rparr>
   \<and> (case None of None \<Rightarrow> None
       | Some device \<Rightarrow> GetStorageImplCreate adopting_table (type_' device)) = None
   \<and> bump_allocator (ConcreteInt 64) = Inr \<lparr>ptr_' = 16384\<rparr>
   \<and> make_storage_impl adopting_table use_byte_size_t (ConcreteInt 64) \<lparr>ptr_' = nullptr\<rparr>
        (Some bump_allocator) False None
       = StorageImpl_allocating use_byte_size_t (ConcreteInt 64) (Some bump_allocator) False
   \<and> (\<exists>h. make_storage_impl adopting_table use_byte_size_t (ConcreteInt 64) \<lparr>ptr_' = nullptr\<rparr>
              (Some bump_allocator) False None = Inr h
          \<and> data_ptr_' h = \<lparr>ptr_' = 16384\<rparr>)"
proof -
  have n: "(case None of None \<Rightarrow> None
            | Some device \<Rightarrow> GetStorageImplCreate adopting_table (type_' device)) = None"
    by simp
  have b: "bump_allocator (ConcreteInt 64) = Inr \<lparr>ptr_' = 16384\<rparr>"
    by (simp add: bump_allocator_def)
  show ?thesis
    using n b buffer_at_nullptr_is_null
      null_buffer_allocates [OF buffer_at_nullptr_is_null n, of use_byte_size_t
        "ConcreteInt 64" "Some bump_allocator" False bump_allocator "\<lparr>ptr_' = 16384\<rparr>"]
    by blast
qed

end
